theory Spec2Isabelle
  imports Main "HOL-Library.List_Lexorder" "HOL-Library.Char_ord"
begin

section \<open>Python values\<close>

text \<open>
  The client and the manager work on decoded JSON: every attribute of a token and every
  value of a response is a dynamically typed Python value. JSON numbers are integers
  here; floating-point numbers are outside the model. A dictionary is an association
  list in insertion order, looked up with \<open>map_of\<close>.
\<close>

datatype json =
    JNull
  | JBool bool
  | JInt int
  | JStr string
  | JList "json list"
  | JObj "(string \<times> json) list"

type_synonym dict = "(string \<times> json) list"

datatype exn =
    TrueXAPIError string
  | ClientError
  | DecodeError
  | AttributeError
  | TypeError

text \<open>A computation that may raise: \<open>Inl\<close> is the exception.\<close>

definition bind_res :: "exn + 'a \<Rightarrow> ('a \<Rightarrow> exn + 'b) \<Rightarrow> exn + 'b" where
  "bind_res r f = (case r of Inl e \<Rightarrow> Inl e | Inr x \<Rightarrow> f x)"

text \<open>Truth value of a Python object, as \<open>if x:\<close> and \<open>not x\<close> test it.\<close>

fun truthy :: "json \<Rightarrow> bool" where
  "truthy JNull = False"
| "truthy (JBool b) = b"
| "truthy (JInt n) = (n \<noteq> 0)"
| "truthy (JStr s) = (s \<noteq> [])"
| "truthy (JList xs) = (xs \<noteq> [])"
| "truthy (JObj kvs) = (kvs \<noteq> [])"

text \<open>\<open>d.get(k, default)\<close> on a dictionary.\<close>

definition dict_get :: "dict \<Rightarrow> string \<Rightarrow> json \<Rightarrow> json" where
  "dict_get d k dflt = (case map_of d k of None \<Rightarrow> dflt | Some v \<Rightarrow> v)"

text \<open>\<open>x.get(k, default)\<close> on any value: only a dictionary has the method.\<close>

fun py_get :: "json \<Rightarrow> string \<Rightarrow> json \<Rightarrow> exn + json" where
  "py_get (JObj d) k dflt = Inr (dict_get d k dflt)"
| "py_get _ k dflt = Inl AttributeError"

text \<open>The integer a number stands for in arithmetic (\<open>bool\<close> is a subclass of \<open>int\<close>).\<close>

fun as_int :: "json \<Rightarrow> int option" where
  "as_int (JInt n) = Some n"
| "as_int (JBool b) = Some (if b then 1 else 0)"
| "as_int _ = None"

text \<open>\<open>x * n\<close> for an integer literal \<open>n\<close>: product of numbers, repetition of sequences.\<close>

fun py_mul_int :: "json \<Rightarrow> int \<Rightarrow> exn + json" where
  "py_mul_int (JInt a) n = Inr (JInt (a * n))"
| "py_mul_int (JBool b) n = Inr (JInt ((if b then 1 else 0) * n))"
| "py_mul_int (JStr s) n = Inr (JStr (concat (replicate (nat n) s)))"
| "py_mul_int (JList xs) n = Inr (JList (concat (replicate (nat n) xs)))"
| "py_mul_int _ n = Inl TypeError"

text \<open>\<open>x + y\<close>: sum of numbers, concatenation of two strings or of two lists.\<close>

fun py_add :: "json \<Rightarrow> json \<Rightarrow> exn + json" where
  "py_add (JStr s) (JStr t) = Inr (JStr (s @ t))"
| "py_add (JList xs) (JList ys) = Inr (JList (xs @ ys))"
| "py_add x y =
     (case (as_int x, as_int y) of
        (Some a, Some b) \<Rightarrow> Inr (JInt (a + b))
      | _ \<Rightarrow> Inl TypeError)"

text \<open>\<open>x - n <= m\<close> for integers \<open>n\<close>, \<open>m\<close>: defined on numbers only.\<close>

definition py_sub_le :: "json \<Rightarrow> int \<Rightarrow> int \<Rightarrow> exn + bool" where
  "py_sub_le x n m = (case as_int x of None \<Rightarrow> Inl TypeError | Some a \<Rightarrow> Inr (a - n \<le> m))"

section \<open>Token information (integration client)\<close>

text \<open>
  \<open>custom_components/truex/truex_sharing/customerapi.py\<close>, class \<open>TrueXTokenInfo\<close>.
  \<open>expire_at\<close> is the absolute expiry instant in milliseconds.
\<close>

record token_info =
  access_token :: json
  refresh_token :: json
  uid :: json
  expire_time :: json
  expire_at :: json

definition empty_token :: token_info where
  "empty_token =
     \<lparr>access_token = JStr [], refresh_token = JStr [], uid = JStr [],
      expire_time = JInt 0, expire_at = JInt 0\<rparr>"

text \<open>
  \<open>TrueXTokenInfo(token_response)\<close>: a missing or empty response gives the empty
  token; otherwise \<open>expire_at = t + expire_time * 1000\<close>.
\<close>

definition token_init :: "dict option \<Rightarrow> exn + token_info" where
  "token_init token_response =
     (case token_response of
        None \<Rightarrow> Inr empty_token
      | Some d \<Rightarrow>
          if d = [] then Inr empty_token
          else
            (let t = dict_get d ''t'' (JInt 0);
                 expire_secs = dict_get d ''expire_time'' (JInt 0)
             in bind_res (py_mul_int expire_secs 1000) (\<lambda>ms.
                bind_res (py_add t ms) (\<lambda>at.
                  Inr \<lparr>access_token = dict_get d ''access_token'' (JStr []),
                       refresh_token = dict_get d ''refresh_token'' (JStr []),
                       uid = dict_get d ''uid'' (JStr []),
                       expire_time = expire_secs,
                       expire_at = at\<rparr>))))"

text \<open>
  \<open>is_expired\<close>, given the reading \<open>now_ms = int(time.time() * 1000)\<close> of the clock.
  The clock is read only when there is an access token.
\<close>

definition is_expired :: "token_info \<Rightarrow> int \<Rightarrow> exn + bool" where
  "is_expired tok now_ms =
     (if \<not> truthy (access_token tok) then Inr True
      else py_sub_le (expire_at tok) 60000 now_ms)"

definition to_dict :: "token_info \<Rightarrow> dict" where
  "to_dict tok =
     [(''access_token'', access_token tok),
      (''refresh_token'', refresh_token tok),
      (''uid'', uid tok),
      (''expire_time'', expire_time tok),
      (''expire_at'', expire_at tok)]"

definition from_dict :: "dict \<Rightarrow> token_info" where
  "from_dict data =
     \<lparr>access_token = dict_get data ''access_token'' (JStr []),
      refresh_token = dict_get data ''refresh_token'' (JStr []),
      uid = dict_get data ''uid'' (JStr []),
      expire_time = dict_get data ''expire_time'' (JInt 0),
      expire_at = dict_get data ''expire_at'' (JInt 0)\<rparr>"

section \<open>Token information (library client)\<close>

text \<open>
  \<open>truex_sharing/customerapi.py\<close>, class \<open>TrueXTokenInfo\<close>. The token keeps the
  instant it was acquired at and its lifetime, both in seconds. \<open>time.time()\<close> is a
  float in the source; the model covers the readings that are whole seconds, on which
  the source's arithmetic is exact.
\<close>

record token_info_sdk =
  access_token_sdk :: json
  refresh_token_sdk :: json
  expire_time_sdk :: json
  uid_sdk :: json
  token_acquired_at :: json

definition empty_token_sdk :: token_info_sdk where
  "empty_token_sdk =
     \<lparr>access_token_sdk = JStr [], refresh_token_sdk = JStr [], expire_time_sdk = JInt 0,
      uid_sdk = JStr [], token_acquired_at = JInt 0\<rparr>"

text \<open>\<open>time.time() > token_acquired_at + expire_time - 60\<close>.\<close>

definition is_expired_sdk :: "token_info_sdk \<Rightarrow> int \<Rightarrow> exn + bool" where
  "is_expired_sdk tok now =
     (if \<not> truthy (access_token_sdk tok) then Inr True
      else bind_res (py_add (token_acquired_at tok) (expire_time_sdk tok)) (\<lambda>s.
             case as_int s of
               None \<Rightarrow> Inl TypeError
             | Some a \<Rightarrow> Inr (now > a - 60)))"

definition to_dict_sdk :: "token_info_sdk \<Rightarrow> dict" where
  "to_dict_sdk tok =
     [(''access_token'', access_token_sdk tok),
      (''refresh_token'', refresh_token_sdk tok),
      (''expire_time'', expire_time_sdk tok),
      (''uid'', uid_sdk tok),
      (''token_acquired_at'', token_acquired_at tok)]"

definition from_dict_sdk :: "dict \<Rightarrow> token_info_sdk" where
  "from_dict_sdk data =
     \<lparr>access_token_sdk = dict_get data ''access_token'' (JStr []),
      refresh_token_sdk = dict_get data ''refresh_token'' (JStr []),
      expire_time_sdk = dict_get data ''expire_time'' (JInt 0),
      uid_sdk = dict_get data ''uid'' (JStr []),
      token_acquired_at = dict_get data ''token_acquired_at'' (JInt 0)\<rparr>"

section \<open>Library functions and formatting\<close>

text \<open>
  The functions of Python's standard library that the client calls are parameters of
  the model: nothing is assumed about them.
\<close>

record pylib =
  sha256_hexdigest :: "string \<Rightarrow> string"
  hmac_sha256_hexdigest :: "string \<Rightarrow> string \<Rightarrow> string"
  json_dumps :: "dict \<Rightarrow> string"
  json_loads :: "string \<Rightarrow> json option"
  urlencode :: "dict \<Rightarrow> string"
  py_repr :: "json \<Rightarrow> string"

text \<open>\<open>str(n)\<close> for an integer: its decimal digits.\<close>

definition digit_char :: "nat \<Rightarrow> char" where
  "digit_char d = ''0123456789'' ! d"

fun str_nat :: "nat \<Rightarrow> string" where
  "str_nat n =
     (if n < 10 then [digit_char n]
      else str_nat (n div 10) @ [digit_char (n mod 10)])"

declare str_nat.simps [simp del]

definition str_int :: "int \<Rightarrow> string" where
  "str_int i = (if i < 0 then CHR ''-'' # str_nat (nat (- i)) else str_nat (nat i))"

text \<open>
  \<open>str(x)\<close>, as an f-string formats a value: a string is itself, a list or a
  dictionary is printed by \<open>repr\<close>.
\<close>

fun py_str :: "'a pylib_scheme \<Rightarrow> json \<Rightarrow> string" where
  "py_str L (JStr s) = s"
| "py_str L (JInt n) = str_int n"
| "py_str L (JBool b) = (if b then ''True'' else ''False'')"
| "py_str L JNull = ''None''"
| "py_str L v = py_repr L v"

text \<open>\<open>s + x\<close> for a string \<open>s\<close>: \<open>x\<close> must be a string too.\<close>

fun str_concat :: "string \<Rightarrow> json \<Rightarrow> exn + string" where
  "str_concat s (JStr t) = Inr (s @ t)"
| "str_concat s _ = Inl TypeError"

text \<open>\<open>sep.join(xs)\<close>.\<close>

fun join :: "string \<Rightarrow> string list \<Rightarrow> string" where
  "join sep [] = []"
| "join sep [x] = x"
| "join sep (x # y # xs) = x @ sep @ join sep (y # xs)"

text \<open>The keys of a dictionary, each once, in insertion order.\<close>

fun dict_keys :: "dict \<Rightarrow> string list" where
  "dict_keys [] = []"
| "dict_keys ((k, v) # d) = k # removeAll k (dict_keys d)"

text \<open>\<open>s.upper()\<close> on ASCII text.\<close>

definition py_upper :: "string \<Rightarrow> string" where
  "py_upper s =
     map (\<lambda>c. case map_of (zip ''abcdefghijklmnopqrstuvwxyz'' ''ABCDEFGHIJKLMNOPQRSTUVWXYZ'') c of
                 None \<Rightarrow> c
               | Some u \<Rightarrow> u) s"

definition newline :: string where
  "newline = [CHR 0x0A]"

section \<open>Signing\<close>

text \<open>
  \<open>_string_to_sign(method, path, query, body)\<close> of the integration client. An absent
  or empty query leaves the path alone. Under \<open>query[k]\<close> the key is always present, so
  the default of the lookup is never used.
\<close>

definition string_to_sign ::
  "'a pylib_scheme \<Rightarrow> string \<Rightarrow> string \<Rightarrow> dict option \<Rightarrow> string \<Rightarrow> string" where
  "string_to_sign L method path query body =
     (let body_hash = sha256_hexdigest L body;
          url =
            (case query of
               None \<Rightarrow> path
             | Some q \<Rightarrow>
                 if q = [] then path
                 else
                   (let sorted_keys = sort (dict_keys q);
                        qs = join ''&''
                               (map (\<lambda>k. k @ ''='' @ py_str L (dict_get q k JNull)) sorted_keys)
                    in path @ ''?'' @ qs));
          headers_str = []
      in method @ newline @ body_hash @ newline @ headers_str @ newline @ url)"

text \<open>
  \<open>_calc_sign(client_id, secret, timestamp, nonce, sign_str, access_token)\<close> of the
  integration client: business mode when there is an access token, token mode otherwise.
\<close>

definition calc_sign ::
  "'a pylib_scheme \<Rightarrow> string \<Rightarrow> string \<Rightarrow> string \<Rightarrow> string \<Rightarrow> string \<Rightarrow> json
     \<Rightarrow> exn + string" where
  "calc_sign L client_id secret timestamp nonce sign_str token =
     bind_res
       (if truthy token
        then bind_res (str_concat client_id token) (\<lambda>s.
               Inr (s @ timestamp @ nonce @ sign_str))
        else Inr (client_id @ timestamp @ nonce @ sign_str))
       (\<lambda>raw. Inr (py_upper (hmac_sha256_hexdigest L secret raw)))"

text \<open>
  The string to sign inside \<open>CustomerApi._calc_sign\<close> of the library client.
\<close>

definition string_to_sign_sdk ::
  "'a pylib_scheme \<Rightarrow> string \<Rightarrow> string \<Rightarrow> dict option \<Rightarrow> string \<Rightarrow> string" where
  "string_to_sign_sdk L method path query_params body =
     (let content_hash = sha256_hexdigest L body;
          sorted_query =
            (case query_params of
               None \<Rightarrow> []
             | Some q \<Rightarrow>
                 if q = [] then []
                 else join ''&''
                        (map (\<lambda>k. k @ ''='' @ py_str L (dict_get q k JNull))
                           (sort (dict_keys q))));
          url_with_query = (if sorted_query \<noteq> [] then path @ ''?'' @ sorted_query else path);
          headers_str = []
      in method @ newline @ content_hash @ newline @ headers_str @ newline @ url_with_query)"

text \<open>
  The canonical request string as the specification words it: the method, the SHA-256
  hex digest of the body, an empty line for the signed headers, and the canonical URL,
  which is the path, followed when there are query parameters by \<open>?\<close> and the pairs
  \<open>key=value\<close> in the order of their keys, joined by \<open>&\<close>.
\<close>

definition sortedQueryString :: "'a pylib_scheme \<Rightarrow> (string \<rightharpoonup> json) \<Rightarrow> string" where
  "sortedQueryString L m =
     join ''&''
       (map (\<lambda>k. k @ ''='' @ py_str L (case m k of None \<Rightarrow> JNull | Some v \<Rightarrow> v))
          (sorted_list_of_set (dom m)))"

definition canonicalRequestString ::
  "'a pylib_scheme \<Rightarrow> string \<Rightarrow> string \<Rightarrow> (string \<rightharpoonup> json) \<Rightarrow> string \<Rightarrow> string" where
  "canonicalRequestString L method path m bodyText =
     method @ newline @ sha256_hexdigest L bodyText @ newline @ [] @ newline
       @ (if dom m = {} then path else path @ ''?'' @ sortedQueryString L m)"

section \<open>Programs with state and exceptions\<close>

text \<open>
  A method that changes the state of its object and may raise is a function from the
  state to an outcome and the state left behind. The state survives an exception.
\<close>

type_synonym ('s, 'a) prog = "'s \<Rightarrow> (exn + 'a) \<times> 's"

definition return :: "'a \<Rightarrow> ('s, 'a) prog" where
  "return x s = (Inr x, s)"

definition raise :: "exn \<Rightarrow> ('s, 'a) prog" where
  "raise e s = (Inl e, s)"

definition lift :: "exn + 'a \<Rightarrow> ('s, 'a) prog" where
  "lift r s = (r, s)"

definition then_do :: "('s, 'a) prog \<Rightarrow> ('a \<Rightarrow> ('s, 'b) prog) \<Rightarrow> ('s, 'b) prog" where
  "then_do m f s = (case m s of (Inl e, s') \<Rightarrow> (Inl e, s') | (Inr x, s') \<Rightarrow> f x s')"

text \<open>\<open>try: m except Exception: h\<close>; every exception of the model is an \<open>Exception\<close>.\<close>

definition try_except :: "('s, 'a) prog \<Rightarrow> (exn \<Rightarrow> ('s, 'a) prog) \<Rightarrow> ('s, 'a) prog" where
  "try_except m h s = (case m s of (Inl e, s') \<Rightarrow> h e s' | (Inr x, s') \<Rightarrow> (Inr x, s'))"

text \<open>\<open>try: m finally: c\<close> for a clean-up that only assigns.\<close>

definition try_finally :: "('s, 'a) prog \<Rightarrow> ('s \<Rightarrow> 's) \<Rightarrow> ('s, 'a) prog" where
  "try_finally m c s = (case m s of (r, s') \<Rightarrow> (r, c s'))"

section \<open>The HTTP transport\<close>

text \<open>
  A request as the client hands it to \<open>aiohttp\<close>. The reply is either a failure of the
  connection, or a response with its \<open>ok\<close> flag and its body decoded as JSON
  (\<open>None\<close> when \<open>resp.json()\<close> raises).
\<close>

record http_request =
  rq_method :: string
  rq_url :: string
  rq_headers :: dict
  rq_json :: "dict option"
  rq_data :: "string option"

datatype http_reply = ConnectionFailed | Response bool "json option"

text \<open>
  What surrounds the client: the library, the server, which answers a request knowing
  all requests sent so far (the last one is the one to answer), the clock, whose
  \<open>n\<close>-th reading is \<open>clock n\<close>, and the constants of the client.
\<close>

record env = pylib +
  server :: "http_request list \<Rightarrow> http_reply"
  clock :: "nat \<Rightarrow> int"
  api_url :: string
  client_id :: string
  secret :: string
  schema :: string

text \<open>
  The state of a client: its token, its token listener (absent, or one that records the
  snapshots it is given), the requests sent and the number of clock readings taken.
\<close>

record 'tok client_state =
  token_info :: 'tok
  token_listener :: bool
  token_updates :: "dict list"
  sent :: "http_request list"
  clock_reads :: nat

record api_state = "token_info client_state" +
  refreshing_token :: bool

definition read_clock :: "'e env_scheme \<Rightarrow> (('tok, 'z) client_state_scheme, int) prog" where
  "read_clock E w = (Inr (clock E (clock_reads w)), w\<lparr>clock_reads := Suc (clock_reads w)\<rparr>)"

text \<open>\<open>async with session.request(...) as resp\<close>.\<close>

definition http_call ::
  "'e env_scheme \<Rightarrow> http_request
     \<Rightarrow> (('tok, 'z) client_state_scheme, bool \<times> json option) prog" where
  "http_call E rq w =
     (let log = sent w @ [rq]
      in (case server E log of
            ConnectionFailed \<Rightarrow> Inl ClientError
          | Response ok body \<Rightarrow> Inr (ok, body),
          w\<lparr>sent := log\<rparr>))"

text \<open>\<open>await resp.json()\<close>.\<close>

definition resp_json :: "json option \<Rightarrow> exn + json" where
  "resp_json body = (case body of None \<Rightarrow> Inl DecodeError | Some j \<Rightarrow> Inr j)"

text \<open>The URL of a request: the query string is appended when there are parameters.\<close>

definition request_url :: "'e env_scheme \<Rightarrow> string \<Rightarrow> dict option \<Rightarrow> string" where
  "request_url E path params =
     api_url E @ path
       @ (case params of None \<Rightarrow> [] | Some q \<Rightarrow> if q = [] then [] else ''?'' @ urlencode E q)"

section \<open>The integration client\<close>

text \<open>
  \<open>custom_components/truex/truex_sharing/customerapi.py\<close>, class \<open>CustomerApi\<close>.
  Creating the session has no effect that the model observes.
\<close>

definition signed_headers :: "string \<Rightarrow> string \<Rightarrow> string \<Rightarrow> dict" where
  "signed_headers cid sign timestamp =
     [(''client_id'', JStr cid),
      (''sign'', JStr sign),
      (''t'', JStr timestamp),
      (''sign_method'', JStr ''HMAC-SHA256''),
      (''Content-Type'', JStr ''application/json'')]"

text \<open>
  The block shared by \<open>get_access_token\<close> and \<open>_refresh_access_token\<close> on a
  successful response: build the token data, replace the token, tell the listener.
\<close>

definition token_data :: "dict \<Rightarrow> exn + dict" where
  "token_data response =
     (case dict_get response ''result'' (JObj []) of
        JObj result \<Rightarrow>
          Inr [(''t'', dict_get response ''t'' (JInt 0)),
               (''expire_time'', dict_get result ''expire_time'' (JInt 0)),
               (''uid'', dict_get result ''uid'' (JStr [])),
               (''access_token'', dict_get result ''access_token'' (JStr [])),
               (''refresh_token'', dict_get result ''refresh_token'' (JStr []))]
      | _ \<Rightarrow> Inl AttributeError)"

definition store_token :: "token_info \<Rightarrow> (api_state, unit) prog" where
  "store_token tok w =
     (Inr (),
      w\<lparr>token_info := tok,
        token_updates :=
          (if token_listener w then token_updates w @ [to_dict tok] else token_updates w)\<rparr>)"

definition accept_token :: "dict \<Rightarrow> (api_state, unit) prog" where
  "accept_token response =
     then_do (lift (bind_res (token_data response) (\<lambda>td. token_init (Some td)))) store_token"

definition get_access_token :: "'e env_scheme \<Rightarrow> (api_state, json) prog" where
  "get_access_token E =
     then_do (read_clock E) (\<lambda>now.
       let path = ''/v1.0/token'';
           query_params = [(''grant_type'', JStr ''1'')];
           timestamp = str_int now;
           sign_str = string_to_sign E ''GET'' path (Some query_params) []
       in then_do (lift (calc_sign E (client_id E) (secret E) timestamp [] sign_str (JStr [])))
            (\<lambda>sign.
          then_do (http_call E
                     \<lparr>rq_method = ''GET'',
                      rq_url = api_url E @ path @ ''?'' @ urlencode E query_params,
                      rq_headers = signed_headers (client_id E) sign timestamp,
                      rq_json = None, rq_data = None\<rparr>) (\<lambda>(ok, body).
          then_do (lift (resp_json body)) (\<lambda>response.
            case response of
              JObj d \<Rightarrow>
                if truthy (dict_get d ''success'' JNull)
                then then_do (accept_token d) (\<lambda>_. return response)
                else raise (TrueXAPIError
                       (''Failed to get access token: ''
                          @ py_str E (dict_get d ''msg'' (JStr ''Unknown error''))
                          @ '' (code: '' @ py_str E (dict_get d ''code'' (JStr ''N/A'')) @ '')''))
            | _ \<Rightarrow> raise AttributeError))))"

text \<open>The body of the \<open>try\<close> in \<open>_refresh_access_token\<close>.\<close>

definition refresh_body :: "'e env_scheme \<Rightarrow> (api_state, unit) prog" where
  "refresh_body E =
     then_do (\<lambda>w. (str_concat ''/v1.0/token/'' (refresh_token (token_info w)), w)) (\<lambda>path.
     then_do (read_clock E) (\<lambda>now.
       let timestamp = str_int now;
           sign_str = string_to_sign E ''GET'' path None []
       in then_do (lift (calc_sign E (client_id E) (secret E) timestamp [] sign_str (JStr [])))
            (\<lambda>sign.
          then_do (http_call E
                     \<lparr>rq_method = ''GET'',
                      rq_url = api_url E @ path,
                      rq_headers = signed_headers (client_id E) sign timestamp,
                      rq_json = None, rq_data = None\<rparr>) (\<lambda>(ok, body).
          then_do (lift (resp_json body)) (\<lambda>response.
            case response of
              JObj d \<Rightarrow>
                if truthy (dict_get d ''success'' JNull)
                then accept_token d
                else then_do (get_access_token E) (\<lambda>_. return ())
            | _ \<Rightarrow> raise AttributeError)))))"

definition refresh_access_token :: "'e env_scheme \<Rightarrow> (api_state, unit) prog" where
  "refresh_access_token E w =
     (if refreshing_token w then (Inr (), w)
      else try_finally
             (try_except (refresh_body E)
                (\<lambda>e. then_do (get_access_token E) (\<lambda>_. return ())))
             (\<lambda>w'. w'\<lparr>refreshing_token := False\<rparr>)
             (w\<lparr>refreshing_token := True\<rparr>))"

text \<open>The property \<open>is_expired\<close> read on the client's token, now.\<close>

definition token_is_expired :: "'e env_scheme \<Rightarrow> (api_state, bool) prog" where
  "token_is_expired E w =
     (if \<not> truthy (access_token (token_info w)) then (Inr True, w)
      else then_do (read_clock E) (\<lambda>now_ms. lift (is_expired (token_info w) now_ms)) w)"

definition ensure_token :: "'e env_scheme \<Rightarrow> (api_state, unit) prog" where
  "ensure_token E =
     then_do (token_is_expired E) (\<lambda>expired w.
       if expired then
         (if truthy (refresh_token (token_info w)) then refresh_access_token E w
          else then_do (get_access_token E) (\<lambda>_. return ()) w)
       else (Inr (), w))"

definition request ::
  "'e env_scheme \<Rightarrow> string \<Rightarrow> string \<Rightarrow> dict option \<Rightarrow> dict option \<Rightarrow> (api_state, json) prog"
  where
  "request E method path params body =
     then_do (ensure_token E) (\<lambda>_.
     then_do (read_clock E) (\<lambda>now w.
       (let timestamp = str_int now;
            body_str = (case body of None \<Rightarrow> [] | Some b \<Rightarrow> if b = [] then [] else json_dumps E b);
            sign_str = string_to_sign E method path params body_str;
            token = access_token (token_info w)
        in then_do (lift (calc_sign E (client_id E) (secret E) timestamp [] sign_str token))
             (\<lambda>sign.
           then_do (http_call E
                      \<lparr>rq_method = method,
                       rq_url = request_url E path params,
                       rq_headers =
                         [(''client_id'', JStr (client_id E)),
                          (''access_token'', token),
                          (''sign'', JStr sign),
                          (''t'', JStr timestamp),
                          (''sign_method'', JStr ''HMAC-SHA256''),
                          (''Content-Type'', JStr ''application/json'')],
                       rq_json = (case body of None \<Rightarrow> None | Some b \<Rightarrow> if b = [] then None else Some b),
                       rq_data = None\<rparr>) (\<lambda>(ok, rbody).
             if \<not> ok then return (JObj [(''success'', JBool False)])
             else then_do (lift (resp_json rbody)) (\<lambda>response.
               case response of
                 JObj d \<Rightarrow>
                   if \<not> truthy (dict_get d ''success'' JNull)
                   then raise (TrueXAPIError
                          (''API error: '' @ py_str E (dict_get d ''msg'' (JStr ''Unknown error''))
                             @ '' (code: '' @ py_str E (dict_get d ''code'' (JStr ''N/A'')) @ '')''))
                   else return response
               | _ \<Rightarrow> raise AttributeError)))) w))"

definition get :: "'e env_scheme \<Rightarrow> string \<Rightarrow> dict option \<Rightarrow> (api_state, json) prog" where
  "get E path params = request E ''GET'' path params None"

definition post ::
  "'e env_scheme \<Rightarrow> string \<Rightarrow> dict option \<Rightarrow> dict option \<Rightarrow> (api_state, json) prog" where
  "post E path params body = request E ''POST'' path params body"

definition get_user_devices :: "'e env_scheme \<Rightarrow> string \<Rightarrow> (api_state, json) prog" where
  "get_user_devices E user = get E (''/v1.0/users/'' @ user @ ''/devices'') None"

definition get_device_status :: "'e env_scheme \<Rightarrow> json \<Rightarrow> (api_state, json) prog" where
  "get_device_status E device_id =
     get E (''/v1.0/devices/'' @ py_str E device_id @ ''/status'') None"

definition get_device_specifications :: "'e env_scheme \<Rightarrow> json \<Rightarrow> (api_state, json) prog" where
  "get_device_specifications E device_id =
     get E (''/v1.0/devices/'' @ py_str E device_id @ ''/specifications'') None"

definition send_device_commands ::
  "'e env_scheme \<Rightarrow> json \<Rightarrow> json \<Rightarrow> (api_state, json) prog" where
  "send_device_commands E device_id commands =
     post E (''/v1.0/devices/'' @ py_str E device_id @ ''/commands'') None
       (Some [(''commands'', commands)])"

section \<open>The library client\<close>

text \<open>
  \<open>truex_sharing/customerapi.py\<close>, class \<open>CustomerApi\<close>. The clock of this client
  is read in seconds.
\<close>

type_synonym sdk_state = "token_info_sdk client_state"

text \<open>
  \<open>_calc_sign\<close>, which returns the signature and the timestamp; the clock is read when
  no timestamp is given.
\<close>

definition calc_sign_sdk ::
  "'e env_scheme \<Rightarrow> string \<Rightarrow> string \<Rightarrow> dict option \<Rightarrow> string \<Rightarrow> string \<Rightarrow> string \<Rightarrow> bool
     \<Rightarrow> (sdk_state, string \<times> string) prog" where
  "calc_sign_sdk E method path query_params body timestamp0 nonce use_token =
     then_do (if timestamp0 = [] then then_do (read_clock E) (\<lambda>now. return (str_int (now * 1000)))
              else return timestamp0) (\<lambda>timestamp w.
       (let string_to_sign = string_to_sign_sdk E method path query_params body;
            token = (if use_token then access_token_sdk (token_info w) else JStr []);
            sign_str = client_id E @ py_str E token @ timestamp @ nonce @ string_to_sign;
            sign = py_upper (hmac_sha256_hexdigest E (secret E) sign_str)
        in (Inr (sign, timestamp), w)))"

definition build_headers ::
  "'e env_scheme \<Rightarrow> string \<Rightarrow> string \<Rightarrow> dict option \<Rightarrow> string \<Rightarrow> bool \<Rightarrow> (sdk_state, dict) prog"
  where
  "build_headers E method path query_params body use_token =
     then_do (calc_sign_sdk E method path query_params body [] [] use_token)
       (\<lambda>(sign, timestamp) w.
          (Inr (signed_headers (client_id E) sign timestamp
                  @ (if use_token \<and> truthy (access_token_sdk (token_info w))
                     then [(''access_token'', access_token_sdk (token_info w))] else [])),
           w))"

text \<open>
  \<open>TrueXTokenInfo(token_response)\<close> of the library client, which reads the token
  from \<open>result\<close>, or from the response itself when there is no \<open>result\<close>, and
  notes the time.
\<close>

definition token_init_sdk :: "'e env_scheme \<Rightarrow> dict \<Rightarrow> (sdk_state, token_info_sdk) prog" where
  "token_init_sdk E token_response =
     (if token_response = [] then return empty_token_sdk
      else
        (case dict_get token_response ''result'' (JObj token_response) of
           JObj result \<Rightarrow>
             then_do (read_clock E) (\<lambda>now.
               return
                 \<lparr>access_token_sdk = dict_get result ''access_token'' (JStr []),
                  refresh_token_sdk = dict_get result ''refresh_token'' (JStr []),
                  expire_time_sdk = dict_get result ''expire_time'' (JInt 0),
                  uid_sdk = dict_get result ''uid'' (JStr []),
                  token_acquired_at = JInt now\<rparr>)
         | _ \<Rightarrow> raise AttributeError))"

definition store_token_sdk :: "token_info_sdk \<Rightarrow> (sdk_state, unit) prog" where
  "store_token_sdk tok w =
     (Inr (),
      w\<lparr>token_info := tok,
        token_updates :=
          (if token_listener w then token_updates w @ [to_dict_sdk tok] else token_updates w)\<rparr>)"

definition get_access_token_sdk :: "'e env_scheme \<Rightarrow> (sdk_state, json) prog" where
  "get_access_token_sdk E =
     (let path = ''/v1.0/token'';
          query_params = [(''grant_type'', JStr ''1'')]
      in then_do (build_headers E ''GET'' path (Some query_params) [] False) (\<lambda>headers.
         then_do (http_call E
                    \<lparr>rq_method = ''GET'',
                     rq_url = api_url E @ path @ ''?'' @ urlencode E query_params,
                     rq_headers = headers, rq_json = None, rq_data = None\<rparr>) (\<lambda>(ok, body).
         then_do (lift (resp_json body)) (\<lambda>response.
           case response of
             JObj d \<Rightarrow>
               if truthy (dict_get d ''success'' JNull)
               then then_do (token_init_sdk E d) (\<lambda>tok.
                    then_do (store_token_sdk tok) (\<lambda>_. return response))
               else raise (TrueXAPIError
                      (''Failed to get access token: ''
                         @ py_str E (dict_get d ''msg'' (JStr ''Unknown error''))
                         @ '' (code: '' @ py_str E (dict_get d ''code'' (JStr ''N/A'')) @ '')''))
           | _ \<Rightarrow> raise AttributeError))))"

definition refresh_access_token_sdk :: "'e env_scheme \<Rightarrow> (sdk_state, json) prog" where
  "refresh_access_token_sdk E w =
     (if \<not> truthy (refresh_token_sdk (token_info w)) then get_access_token_sdk E w
      else
        (let path = ''/v1.0/token/'' @ py_str E (refresh_token_sdk (token_info w))
         in then_do (build_headers E ''GET'' path None [] False) (\<lambda>headers.
            then_do (http_call E
                       \<lparr>rq_method = ''GET'', rq_url = api_url E @ path,
                        rq_headers = headers, rq_json = None, rq_data = None\<rparr>) (\<lambda>(ok, body).
            then_do (lift (resp_json body)) (\<lambda>response.
              case response of
                JObj d \<Rightarrow>
                  if truthy (dict_get d ''success'' JNull)
                  then then_do (token_init_sdk E d) (\<lambda>tok.
                       then_do (store_token_sdk tok) (\<lambda>_. return response))
                  else get_access_token_sdk E
              | _ \<Rightarrow> raise AttributeError))) w))"

definition token_is_expired_sdk :: "'e env_scheme \<Rightarrow> (sdk_state, bool) prog" where
  "token_is_expired_sdk E w =
     (if \<not> truthy (access_token_sdk (token_info w)) then (Inr True, w)
      else then_do (read_clock E) (\<lambda>now. lift (is_expired_sdk (token_info w) now)) w)"

definition ensure_token_sdk :: "'e env_scheme \<Rightarrow> (sdk_state, unit) prog" where
  "ensure_token_sdk E =
     then_do (token_is_expired_sdk E) (\<lambda>expired w.
       if expired then
         (if truthy (refresh_token_sdk (token_info w))
          then then_do (refresh_access_token_sdk E) (\<lambda>_. return ()) w
          else then_do (get_access_token_sdk E) (\<lambda>_. return ()) w)
       else (Inr (), w))"

text \<open>
  The two places of \<open>request\<close> that build the headers, send the request and decode
  the response: the first attempt and the retry. Method, URL and body are the same in
  both; the headers are built anew.
\<close>

definition attempt_sdk ::
  "'e env_scheme \<Rightarrow> string \<Rightarrow> string \<Rightarrow> dict option \<Rightarrow> dict option \<Rightarrow> (sdk_state, json) prog"
  where
  "attempt_sdk E method path query_params body =
     (let body_str = (case body of None \<Rightarrow> [] | Some b \<Rightarrow> if b = [] then [] else json_dumps E b)
      in then_do (build_headers E method path query_params body_str True) (\<lambda>headers.
         then_do (http_call E
                    \<lparr>rq_method = method,
                     rq_url = request_url E path query_params,
                     rq_headers = headers,
                     rq_json = None,
                     rq_data = (case body of
                                  None \<Rightarrow> None
                                | Some b \<Rightarrow> if b = [] then None else Some body_str)\<rparr>)
           (\<lambda>(ok, rbody). lift (resp_json rbody))))"

text \<open>The test \<open>code in (1010, "1010")\<close>.\<close>

definition token_invalid :: "json \<Rightarrow> bool" where
  "token_invalid code \<longleftrightarrow> code = JInt 1010 \<or> code = JStr ''1010''"

definition request_sdk ::
  "'e env_scheme \<Rightarrow> string \<Rightarrow> string \<Rightarrow> dict option \<Rightarrow> dict option \<Rightarrow> (sdk_state, json) prog"
  where
  "request_sdk E method path query_params body =
     then_do (ensure_token_sdk E) (\<lambda>_.
     then_do (attempt_sdk E method path query_params body) (\<lambda>response.
       case response of
         JObj d \<Rightarrow>
           if \<not> truthy (dict_get d ''success'' JNull) then
             (if token_invalid (dict_get d ''code'' (JStr ''N/A'')) then
                then_do (get_access_token_sdk E) (\<lambda>_.
                then_do (attempt_sdk E method path query_params body) (\<lambda>response'.
                  case response' of
                    JObj d' \<Rightarrow>
                      if \<not> truthy (dict_get d' ''success'' JNull)
                      then raise (TrueXAPIError
                             (''API error after retry: '' @ py_str E (dict_get d' ''msg'' JNull)
                                @ '' (code: '' @ py_str E (dict_get d' ''code'' JNull) @ '')''))
                      else return response'
                  | _ \<Rightarrow> raise AttributeError))
              else return response)
           else return response
       | _ \<Rightarrow> raise AttributeError))"

section \<open>Example environments\<close>

text \<open>Stand-ins for the library functions, to run the model on concrete inputs.\<close>

definition lib0 :: pylib where
  "lib0 =
     \<lparr>sha256_hexdigest = (\<lambda>s. ''#'' @ s),
      hmac_sha256_hexdigest = (\<lambda>k m. k @ '':'' @ m),
      json_dumps = (\<lambda>d. ''{..}''),
      json_loads = (\<lambda>s. None),
      urlencode = (\<lambda>d. join ''&'' (map (\<lambda>k. k @ ''='' @ (case dict_get d k JNull of JStr s \<Rightarrow> s | _ \<Rightarrow> [])) (dict_keys d))),
      py_repr = (\<lambda>v. ''[..]'')\<rparr>"

(*DEFS-END*)

section \<open>Helper lemmas\<close>

lemma str_nat_digit: "n < 10 \<Longrightarrow> str_nat n = [digit_char n]"
  by (simp add: str_nat.simps)

lemma str_nat_more: "\<not> n < 10 \<Longrightarrow> str_nat n = str_nat (n div 10) @ [digit_char (n mod 10)]"
  by (subst str_nat.simps) simp

lemma set_dict_keys: "set (dict_keys d) = fst ` set d"
  by (induction d rule: dict_keys.induct) auto

lemma distinct_dict_keys: "distinct (dict_keys d)"
  by (induction d rule: dict_keys.induct) (auto simp: distinct_removeAll)

lemma sort_dict_keys: "sort (dict_keys d) = sorted_list_of_set (dom (map_of d))"
proof -
  have "sort (dict_keys d) = sorted_list_of_set (set (dict_keys d))"
    by (simp add: distinct_dict_keys sorted_list_of_set_sort_remdups distinct_remdups_id)
  then show ?thesis
    by (simp add: set_dict_keys dom_map_of_conv_image_fst)
qed

lemma join_eq_Nil:
  "join sep xs = [] \<longleftrightarrow> (\<forall>x\<in>set xs. x = []) \<and> (sep = [] \<or> length xs \<le> 1)"
  by (induction sep xs rule: join.induct) auto

lemma string_to_sign_Some:
  "string_to_sign L m p (Some q) b = canonicalRequestString L m p (map_of q) b"
  by (cases q)
     (simp_all add: string_to_sign_def canonicalRequestString_def sortedQueryString_def
        Let_def sort_dict_keys dict_get_def)

lemma string_to_sign_None:
  "string_to_sign L m p None b = canonicalRequestString L m p Map.empty b"
  by (simp add: string_to_sign_def canonicalRequestString_def Let_def)

lemma query_string_nonempty:
  assumes "q \<noteq> []"
  shows "join ''&'' (map (\<lambda>k. k @ ''='' @ py_str L (dict_get q k JNull)) (sort (dict_keys q))) \<noteq> []"
proof -
  from assms have "set (dict_keys q) \<noteq> {}"
    by (cases q) (auto simp: set_dict_keys)
  then have "sort (dict_keys q) \<noteq> []"
    by (metis set_empty set_sort)
  then show ?thesis
    by (cases "sort (dict_keys q)") (auto simp: join_eq_Nil)
qed

lemma string_to_sign_sdk_eq:
  "string_to_sign_sdk L m p qo b = string_to_sign L m p qo b"
proof (cases qo)
  case None
  then show ?thesis by (simp add: string_to_sign_sdk_def string_to_sign_def)
next
  case (Some q)
  show ?thesis
  proof (cases "q = []")
    case True
    with Some show ?thesis by (simp add: string_to_sign_sdk_def string_to_sign_def)
  next
    case False
    with Some query_string_nonempty [OF False, of L] show ?thesis
      by (simp add: string_to_sign_sdk_def string_to_sign_def Let_def)
  qed
qed

section \<open>Token expiry and persistence\<close>

text \<open>
  C2 (amended). With an access token \<open>a\<close> and an expiry instant \<open>e\<close>, the integration
  client's \<open>is_expired\<close> is true exactly when \<open>a\<close> is empty or \<open>e - 60000 \<le> now_ms\<close>:
  the expiry instant less the 60 second buffer counts as expired. The library client's
  \<open>is_expired\<close> is true exactly when \<open>a\<close> is empty or the clock is strictly later
  than \<open>token_acquired_at + expire_time - 60\<close>. In both, a token expiring 30 seconds
  from now is expired and one expiring 120 seconds from now is not.
\<close>

theorem is_expired_buffer:
  "is_expired (tok\<lparr>access_token := JStr a, expire_at := JInt e\<rparr>) now_ms
     = Inr (a = [] \<or> e - 60000 \<le> now_ms)
   \<and> is_expired (tok\<lparr>access_token := JStr (c # a), expire_at := JInt (now_ms + 30000)\<rparr>) now_ms
     = Inr True
   \<and> is_expired (tok\<lparr>access_token := JStr (c # a), expire_at := JInt (now_ms + 120000)\<rparr>) now_ms
     = Inr False
   \<and> is_expired_sdk
       (s\<lparr>access_token_sdk := JStr a, token_acquired_at := JInt t0, expire_time_sdk := JInt d\<rparr>) now
     = Inr (a = [] \<or> t0 + d - 60 < now)
   \<and> is_expired_sdk
       (s\<lparr>access_token_sdk := JStr (c # a), token_acquired_at := JInt (now - d + 30),
          expire_time_sdk := JInt d\<rparr>) now
     = Inr True
   \<and> is_expired_sdk
       (s\<lparr>access_token_sdk := JStr (c # a), token_acquired_at := JInt (now - d + 120),
          expire_time_sdk := JInt d\<rparr>) now
     = Inr False"
  by (simp add: is_expired_def is_expired_sdk_def py_sub_le_def bind_res_def)

text \<open>
  C2 as stated fails for the library client at the boundary: a token acquired at second 0
  with a lifetime of 100 seconds is, at second 40, exactly at its expiry less the buffer,
  and \<open>is_expired\<close> answers false.
\<close>

theorem is_expired_sdk_boundary:
  "is_expired_sdk
     \<lparr>access_token_sdk = JStr ''tok'', refresh_token_sdk = JStr [], expire_time_sdk = JInt 100,
      uid_sdk = JStr [], token_acquired_at = JInt 0\<rparr> 40 = Inr False
   \<and> (0 + 100) - 60 \<le> (40::int)"
  by (simp add: is_expired_sdk_def bind_res_def)

text \<open>
  C9. Deserializing a serialized token gives the token back, field by field, in both
  clients.
\<close>

theorem token_round_trip:
  "from_dict (to_dict t) = t \<and> from_dict_sdk (to_dict_sdk s) = s"
  by (simp add: from_dict_def to_dict_def from_dict_sdk_def to_dict_sdk_def dict_get_def)

section \<open>The string to sign\<close>

text \<open>
  C4. The string to sign of both clients is the canonical request string of the
  specification: method, digest of the body (of the empty text when there is no body),
  an empty line, and the path with the sorted query string when there are query
  parameters. Two queries with the same entries, inserted in any order, give the same
  string.
\<close>

theorem canonical_string_to_sign:
  "string_to_sign L m p None b = canonicalRequestString L m p Map.empty b
   \<and> string_to_sign L m p (Some q) b = canonicalRequestString L m p (map_of q) b
   \<and> string_to_sign_sdk L m p qo b = string_to_sign L m p qo b
   \<and> (map_of q = map_of q' \<longrightarrow>
        string_to_sign L m p (Some q) b = string_to_sign L m p (Some q') b)"
  by (simp add: string_to_sign_Some string_to_sign_None string_to_sign_sdk_eq)

theorem canonical_string_to_sign_witness:
  "map_of [(''b'', JStr ''2''), (''a'', JInt 1)] = map_of [(''a'', JInt 1), (''b'', JStr ''2'')]
   \<and> string_to_sign lib0 ''GET'' ''/p'' (Some [(''b'', JStr ''2''), (''a'', JInt 1)]) []
       = string_to_sign lib0 ''GET'' ''/p'' (Some [(''a'', JInt 1), (''b'', JStr ''2'')]) []
   \<and> string_to_sign lib0 ''GET'' ''/p'' (Some [(''b'', JStr ''2''), (''a'', JInt 1)]) []
       = ''GET'' @ newline @ ''#'' @ newline @ newline @ ''/p?a=1&b=2''"
proof -
  have m: "map_of [(''b'', JStr ''2''), (''a'', JInt 1)] = map_of [(''a'', JInt 1), (''b'', JStr ''2'')]"
    by (rule ext) simp
  have v: "string_to_sign lib0 ''GET'' ''/p'' (Some [(''b'', JStr ''2''), (''a'', JInt 1)]) []
       = ''GET'' @ newline @ ''#'' @ newline @ newline @ ''/p?a=1&b=2''"
    by (simp add: string_to_sign_def lib0_def dict_get_def str_int_def str_nat_digit digit_char_def)
  have e: "string_to_sign lib0 ''GET'' ''/p'' (Some [(''b'', JStr ''2''), (''a'', JInt 1)]) []
       = string_to_sign lib0 ''GET'' ''/p'' (Some [(''a'', JInt 1), (''b'', JStr ''2'')]) []"
    using m canonical_string_to_sign
         [of lib0 "''GET''" "''/p''" "[]" "[(''b'', JStr ''2''), (''a'', JInt 1)]" None
             "[(''a'', JInt 1), (''b'', JStr ''2'')]"]
    by blast
  from m e v show ?thesis by blast
qed


end
